theory Spec2Isabelle
  imports Complex_Main
begin

section \<open>The cost model generator (src/src/CostModelGenerator.cpp)\<close>

text \<open>
  The generator describes a fixed network as a dataflow graph of Halide Funcs.
  The embedding follows the graph definition by definition:
  \<^item> a \<^verbatim>\<open>Buffer<float>\<close> is a function from its index vector to a value;
  \<^item> a Func is a curried function of its pure variables;
  \<^item> an update definition over an \<^verbatim>\<open>RDom\<close> is a left fold over the points of
    the reduction domain, in Halide's loop order (first dimension innermost);
  \<^item> \<^verbatim>\<open>int\<close> inputs and loop variables are mathematical integers (Halide's
    integer division rounds down, as \<open>div\<close> does);
  \<^item> \<^verbatim>\<open>float\<close> values are real numbers: rounding, overflow and the
    special values of IEEE arithmetic are not part of the values that flow
    through the network. Two definitions make them explicit where a statement
    depends on them: \<open>float_div\<close> has the zero-divisor cases of a division, and
    \<open>float32_div\<close> has in addition the overflow of the quotient. The loss is
    divided with \<open>float_div\<close>. The whitening divisions and the divisions of the
    ADAM update are written with \<open>/\<close>; \<open>pipeline_whitening\<close> and
    \<open>schedule_whitening\<close> give the \<^verbatim>\<open>float\<close> result of the whitening divisions.
\<close>

subsection \<open>Buffers and reduction domains\<close>

type_synonym buffer = "int list \<Rightarrow> real"

text \<open>\<^verbatim>\<open>RDom r(min, extent)\<close>: the points \<open>min, \<dots>, min + extent - 1\<close> in loop order.\<close>

definition rdom :: "int \<Rightarrow> int \<Rightarrow> int list" where
  "rdom mn extent = [mn..mn + extent - 1]"

text \<open>\<^verbatim>\<open>RDom r(min_x, extent_x, min_y, extent_y)\<close>: \<open>r.x\<close> is the innermost loop.\<close>

definition rdom2 :: "int \<Rightarrow> int \<Rightarrow> int \<Rightarrow> int \<Rightarrow> (int \<times> int) list" where
  "rdom2 mn_x extent_x mn_y extent_y =
     concat (map (\<lambda>y. map (\<lambda>x. (x, y)) (rdom mn_x extent_x)) (rdom mn_y extent_y))"

text \<open>An update \<^verbatim>\<open>f(..) += e(r)\<close> run over the points of a reduction domain.\<close>

definition accumulate :: "real \<Rightarrow> ('r \<Rightarrow> real) \<Rightarrow> 'r list \<Rightarrow> real" where
  "accumulate init e rs = foldl (\<lambda>acc r. acc + e r) init rs"

text \<open>An update \<^verbatim>\<open>f(.., r) = e(r)\<close> that stores at the reduction variable.\<close>

definition scatter :: "(int \<Rightarrow> real) \<Rightarrow> (int \<Rightarrow> real) \<Rightarrow> int list \<Rightarrow> int \<Rightarrow> real" where
  "scatter pure_def e rs = foldl (\<lambda>f r. f(r := e r)) pure_def rs"

subsection \<open>Inputs of the generator\<close>

datatype weight =
    head1_filter | head1_bias | head2_filter | head2_bias
  | filter1 | bias1 | filter2 | bias2 | filter3 | bias3
  | filter4 | bias4 | filter5 | bias5 | filter6 | bias6

text \<open>
  \<open>weights\<close> holds the sixteen \<^verbatim>\<open>ModelWeight\<close> input buffers. In training mode each
  weight also owns the output buffer \<^verbatim>\<open>grad\<close> (\<^verbatim>\<open>"updated_" + name\<close>), with one more
  dimension of extent 4; its pure definition is \<^verbatim>\<open>undef<float>()\<close>, so the update
  definitions read what the caller left in it. \<open>grad\<close> is that prior content.
\<close>

record inputs =
  num_stages :: int
  batch_size :: int
  pipeline_features :: buffer
  schedule_features :: buffer
  pipeline_mean :: buffer
  pipeline_std :: buffer
  schedule_mean :: buffer
  schedule_std :: buffer
  weights :: "weight \<Rightarrow> buffer"
  grad :: "weight \<Rightarrow> buffer"
  learning_rate :: real
  timestep :: int
  true_runtime :: buffer

subsection \<open>Helpers of the generator class\<close>

text \<open>
  \<^verbatim>\<open>pad_stages\<close>: \<^verbatim>\<open>BoundaryConditions::constant_exterior\<close> with value 0 and bounds
  \<open>[0, stages)\<close> on the last dimension only. The argument is the Func with every
  dimension but the last one applied.
\<close>

definition pad_stages :: "(int \<Rightarrow> real) \<Rightarrow> int \<Rightarrow> int \<Rightarrow> real" where
  "pad_stages f stages w = (if w < 0 \<or> w \<ge> 0 + stages then 0 else f w)"

definition activation :: "real \<Rightarrow> real" where
  "activation e = max 0 e + (1 / 10 ^ 5) * e"

text \<open>
  Modelled from the spec: Halide's \<^verbatim>\<open>fast_log\<close> (declared in IROperator.h, not among
  the sources) is an approximation of the natural logarithm; the spec writes it
  as \<open>log\<close>.
\<close>

definition fast_log :: "real \<Rightarrow> real" where
  "fast_log x = ln x"

text \<open>
  Division of two \<^verbatim>\<open>float\<close> values. A zero divisor does not trap: it yields an
  infinity, or NaN for \<open>0 / 0\<close>.
\<close>

datatype float_result = Finite real | Inf | NaN

definition float_div :: "real \<Rightarrow> real \<Rightarrow> float_result" where
  "float_div x y = (if y = 0 then (if x = 0 then NaN else Inf) else Finite (x / y))"



subsection \<open>\<^verbatim>\<open>generate()\<close>: feature normalization\<close>

definition padded_stages :: "inputs \<Rightarrow> int" where
  "padded_stages inp = max (num_stages inp) 22"

definition first_valid :: "inputs \<Rightarrow> int" where
  "first_valid inp = max 0 ((padded_stages inp - num_stages inp) div 2)"

definition r_s :: "inputs \<Rightarrow> int list" where
  "r_s inp = rdom (first_valid inp) (num_stages inp)"

definition normalized_pipeline_features :: "inputs \<Rightarrow> int \<Rightarrow> int \<Rightarrow> int \<Rightarrow> real" where
  "normalized_pipeline_features inp c j =
     scatter (\<lambda>s. 0)
       (\<lambda>r. (pipeline_features inp [c, j, r - first_valid inp] - pipeline_mean inp [c, j])
              / max (1 / 10 ^ 8) (pipeline_std inp [c, j]))
       (r_s inp)"

definition normalized_schedule_features :: "inputs \<Rightarrow> int \<Rightarrow> int \<Rightarrow> int \<Rightarrow> real" where
  "normalized_schedule_features inp n c =
     scatter (\<lambda>s. 0)
       (\<lambda>r. (fast_log (schedule_features inp [n, c, r - first_valid inp] + 1) - schedule_mean inp [c])
              / max (1 / 10 ^ 8) (schedule_std inp [c]))
       (r_s inp)"



subsection \<open>\<^verbatim>\<open>generate()\<close>: the two heads\<close>

definition head1_channels :: int where "head1_channels = 24"
definition head1_w :: int where "head1_w = 56"
definition head1_h :: int where "head1_h = 7"
definition head2_channels :: int where "head2_channels = 24"
definition head2_w :: int where "head2_w = 26"
definition conv1_channels :: int where "conv1_channels = 48"
definition conv2_channels :: int where "conv2_channels = 48"
definition conv3_channels :: int where "conv3_channels = 96"
definition conv4_channels :: int where "conv4_channels = 120"
definition conv5_channels :: int where "conv5_channels = 168"
definition conv_support :: int where "conv_support = 3"

definition head1_conv :: "inputs \<Rightarrow> int \<Rightarrow> int \<Rightarrow> real" where
  "head1_conv inp c w =
     accumulate (weights inp head1_bias [c])
       (\<lambda>(x, y). weights inp head1_filter [c, x, y] * normalized_pipeline_features inp x y w)
       (rdom2 0 head1_w 0 head1_h)"

definition head1_relu :: "inputs \<Rightarrow> int \<Rightarrow> int \<Rightarrow> real" where
  "head1_relu inp c w = activation (head1_conv inp c w)"

definition head1_relu_padded :: "inputs \<Rightarrow> int \<Rightarrow> int \<Rightarrow> real" where
  "head1_relu_padded inp c = pad_stages (head1_relu inp c) (padded_stages inp)"

definition head2_conv :: "inputs \<Rightarrow> int \<Rightarrow> int \<Rightarrow> int \<Rightarrow> real" where
  "head2_conv inp n c w =
     accumulate (weights inp head2_bias [c])
       (\<lambda>r. weights inp head2_filter [c, r] * normalized_schedule_features inp n r w)
       (rdom 0 head2_w)"

definition head2_relu :: "inputs \<Rightarrow> int \<Rightarrow> int \<Rightarrow> int \<Rightarrow> real" where
  "head2_relu inp n c w = activation (head2_conv inp n c w)"

definition head2_relu_padded :: "inputs \<Rightarrow> int \<Rightarrow> int \<Rightarrow> int \<Rightarrow> real" where
  "head2_relu_padded inp n c = pad_stages (head2_relu inp n c) (padded_stages inp)"

subsection \<open>\<^verbatim>\<open>generate()\<close>: the network trunk\<close>

text \<open>
  \<^verbatim>\<open>head1_filter.dim(0).extent()\<close>: the call
  \<^verbatim>\<open>head1_filter.set_shape(head1_channels, head1_w, head1_h)\<close> at the end of
  \<^verbatim>\<open>generate()\<close> constrains dimension 0 of the buffer to \<open>[0, head1_channels)\<close>.
\<close>

definition head1_filter_dim0_extent :: int where
  "head1_filter_dim0_extent = head1_channels"

definition conv1_stage1 :: "inputs \<Rightarrow> int \<Rightarrow> int \<Rightarrow> real" where
  "conv1_stage1 inp c w =
     accumulate (weights inp bias1 [c])
       (\<lambda>(x, y). weights inp filter1 [c, x, y] * head1_relu_padded inp x (w + y - 1))
       (rdom2 0 head1_channels 0 conv_support)"

definition conv1_stage2 :: "inputs \<Rightarrow> int \<Rightarrow> int \<Rightarrow> int \<Rightarrow> real" where
  "conv1_stage2 inp n c w =
     accumulate (conv1_stage1 inp c w)
       (\<lambda>(x, y). weights inp filter1 [c, head1_filter_dim0_extent + x, y]
                  * head2_relu_padded inp n x (w + y - 1))
       (rdom2 0 head2_channels 0 conv_support)"

definition relu1 :: "inputs \<Rightarrow> int \<Rightarrow> int \<Rightarrow> int \<Rightarrow> real" where
  "relu1 inp n c w = activation (conv1_stage2 inp n c w)"

definition relu1_padded :: "inputs \<Rightarrow> int \<Rightarrow> int \<Rightarrow> int \<Rightarrow> real" where
  "relu1_padded inp n c = pad_stages (relu1 inp n c) (padded_stages inp)"

definition conv2 :: "inputs \<Rightarrow> int \<Rightarrow> int \<Rightarrow> int \<Rightarrow> real" where
  "conv2 inp n c w =
     accumulate (weights inp bias2 [c])
       (\<lambda>(x, y). weights inp filter2 [c, x, y] * relu1_padded inp n x (w + y - 1))
       (rdom2 0 conv1_channels 0 conv_support)"

definition relu2 :: "inputs \<Rightarrow> int \<Rightarrow> int \<Rightarrow> int \<Rightarrow> real" where
  "relu2 inp n c w = activation (conv2 inp n c w)"

definition relu2_padded :: "inputs \<Rightarrow> int \<Rightarrow> int \<Rightarrow> int \<Rightarrow> real" where
  "relu2_padded inp n c = pad_stages (relu2 inp n c) (padded_stages inp)"

definition conv3 :: "inputs \<Rightarrow> int \<Rightarrow> int \<Rightarrow> int \<Rightarrow> real" where
  "conv3 inp n c w =
     accumulate (weights inp bias3 [c])
       (\<lambda>(x, y). weights inp filter3 [c, x, y] * relu2_padded inp n x (w + y - 1))
       (rdom2 0 conv2_channels 0 conv_support)"

definition relu3 :: "inputs \<Rightarrow> int \<Rightarrow> int \<Rightarrow> int \<Rightarrow> real" where
  "relu3 inp n c w = activation (conv3 inp n c w)"

definition relu3_padded :: "inputs \<Rightarrow> int \<Rightarrow> int \<Rightarrow> int \<Rightarrow> real" where
  "relu3_padded inp n c = pad_stages (relu3 inp n c) (padded_stages inp)"

definition pool3 :: "inputs \<Rightarrow> int \<Rightarrow> int \<Rightarrow> int \<Rightarrow> real" where
  "pool3 inp n c w = (1 / 2) * (relu3_padded inp n c (w * 2 - 1) + relu3_padded inp n c (w * 2))"

definition pool3_padded :: "inputs \<Rightarrow> int \<Rightarrow> int \<Rightarrow> int \<Rightarrow> real" where
  "pool3_padded inp n c = pad_stages (pool3 inp n c) (padded_stages inp div 2 + 1)"

definition conv4 :: "inputs \<Rightarrow> int \<Rightarrow> int \<Rightarrow> int \<Rightarrow> real" where
  "conv4 inp n c w =
     accumulate (weights inp bias4 [c])
       (\<lambda>(x, y). weights inp filter4 [c, x, y] * pool3_padded inp n x (w + y - 1))
       (rdom2 0 conv3_channels 0 conv_support)"

definition relu4 :: "inputs \<Rightarrow> int \<Rightarrow> int \<Rightarrow> int \<Rightarrow> real" where
  "relu4 inp n c w = activation (conv4 inp n c w)"

definition relu4_padded :: "inputs \<Rightarrow> int \<Rightarrow> int \<Rightarrow> int \<Rightarrow> real" where
  "relu4_padded inp n c = pad_stages (relu4 inp n c) (padded_stages inp div 2 + 1)"

definition pool4 :: "inputs \<Rightarrow> int \<Rightarrow> int \<Rightarrow> int \<Rightarrow> real" where
  "pool4 inp n c w = (1 / 2) * (relu4_padded inp n c (w * 2 - 1) + relu4_padded inp n c (w * 2))"

definition pool4_padded :: "inputs \<Rightarrow> int \<Rightarrow> int \<Rightarrow> int \<Rightarrow> real" where
  "pool4_padded inp n c = pad_stages (pool4 inp n c) ((padded_stages inp + 6) div 4)"

definition conv5 :: "inputs \<Rightarrow> int \<Rightarrow> int \<Rightarrow> int \<Rightarrow> real" where
  "conv5 inp n c w =
     accumulate (weights inp bias5 [c])
       (\<lambda>(x, y). weights inp filter5 [c, x, y] * pool4_padded inp n x (w + y - 1))
       (rdom2 0 conv4_channels 0 conv_support)"

definition relu5 :: "inputs \<Rightarrow> int \<Rightarrow> int \<Rightarrow> int \<Rightarrow> real" where
  "relu5 inp n c w = activation (conv5 inp n c w)"

definition relu5_padded :: "inputs \<Rightarrow> int \<Rightarrow> int \<Rightarrow> int \<Rightarrow> real" where
  "relu5_padded inp n c = pad_stages (relu5 inp n c) ((padded_stages inp + 6) div 4)"

definition conv6 :: "inputs \<Rightarrow> int \<Rightarrow> int \<Rightarrow> real" where
  "conv6 inp n w =
     accumulate (weights inp bias6 [])
       (\<lambda>r. weights inp filter6 [r] * relu5_padded inp n r w)
       (rdom 0 conv5_channels)"

definition relu6 :: "inputs \<Rightarrow> int \<Rightarrow> int \<Rightarrow> real" where
  "relu6 inp n w = activation (conv6 inp n w)"

definition r_reduce :: "inputs \<Rightarrow> int list" where
  "r_reduce inp = rdom 0 ((padded_stages inp + 6) div 4)"

text \<open>
  \<^verbatim>\<open>prediction(n) += relu6(n, r_reduce)\<close> has no pure definition of its own; Halide
  starts such a reduction from zero.
\<close>

definition prediction :: "inputs \<Rightarrow> int \<Rightarrow> real" where
  "prediction inp n = accumulate 0 (\<lambda>r. relu6 inp n r) (r_reduce inp)"

subsection \<open>\<^verbatim>\<open>generate()\<close>: loss and the ADAM update (training mode)\<close>

definition r_batch :: "inputs \<Rightarrow> int list" where
  "r_batch inp = rdom 0 (batch_size inp)"

definition err :: "inputs \<Rightarrow> int \<Rightarrow> real" where
  "err inp n = (let delta = prediction inp n - true_runtime inp [n] in delta * delta)"

text \<open>\<^verbatim>\<open>Expr loss = sum(err(r_batch))\<close>, an inline reduction.\<close>

definition loss :: "inputs \<Rightarrow> real" where
  "loss inp = accumulate 0 (err inp) (r_batch inp)"

text \<open>
  \<^verbatim>\<open>pow(x, y)\<close> with a \<^verbatim>\<open>float\<close> base and an integer-valued exponent (the literal
  \<open>2\<close>, and \<^verbatim>\<open>timestep + 1\<close> cast to \<^verbatim>\<open>float\<close>).
\<close>

definition pow :: "real \<Rightarrow> int \<Rightarrow> real" where
  "pow x y = power_int x y"

text \<open>
  A \<^verbatim>\<open>FuncRef\<close> \<^verbatim>\<open>grad(args)\<close> with \<^verbatim>\<open>args.back() = k\<close>, read as an expression.
\<close>

definition plane :: "buffer \<Rightarrow> int list \<Rightarrow> int \<Rightarrow> real" where
  "plane g args k = g (args @ [k])"

text \<open>
  An assignment to such a \<^verbatim>\<open>FuncRef\<close> adds an update definition of \<^verbatim>\<open>grad\<close>: every
  site whose last coordinate is \<open>k\<close> is overwritten with the right-hand side, which
  may read the buffer as the earlier update definitions left it.
\<close>

definition update_plane :: "int \<Rightarrow> (int list \<Rightarrow> buffer \<Rightarrow> real) \<Rightarrow> buffer \<Rightarrow> buffer" where
  "update_plane k rhs g = (\<lambda>a. if a \<noteq> [] \<and> last a = k then rhs (butlast a) g else g a)"

text \<open>
  \<^verbatim>\<open>ModelWeight<true>::backprop\<close>. \<open>this\<close> is the weight's input buffer, \<open>d_this\<close> the
  adjoint \<^verbatim>\<open>d(*this)\<close> and \<open>grad0\<close> the content of \<^verbatim>\<open>grad\<close> before the call. The
  update definitions run in the order in which the source adds them: plane 3
  (loss gradient), plane 1 (first moment), plane 2 (second moment), plane 0 (new
  weight).
\<close>

definition backprop :: "buffer \<Rightarrow> buffer \<Rightarrow> buffer \<Rightarrow> real \<Rightarrow> int \<Rightarrow> buffer" where
  "backprop this grad0 d_this learning_rate' timestep' =
     (let
        new_weight = 0;
        smoothed_deriv = 1;
        smoothed_second_moment = 2;
        loss_gradient = 3;
        current_weight = this;
        g1 = update_plane loss_gradient (\<lambda>args g. d_this args) grad0;
        g2 = update_plane smoothed_deriv
               (\<lambda>args g. (9 / 10) * plane g args smoothed_deriv
                          + (1 / 10) * plane g args loss_gradient) g1;
        g3 = update_plane smoothed_second_moment
               (\<lambda>args g. (999 / 1000) * plane g args smoothed_second_moment
                          + (1 / 1000) * pow (plane g args loss_gradient) 2) g2;
        smoothed_deriv_correction = 1 / (1 - pow (9 / 10) (timestep' + 1));
        smoothed_second_moment_correction = 1 / (1 - pow (999 / 1000) (timestep' + 1));
        g4 = update_plane new_weight
               (\<lambda>args g.
                  (let step = learning_rate' * plane g args smoothed_deriv * smoothed_deriv_correction;
                       step = step / (sqrt (plane g args smoothed_second_moment
                                            * smoothed_second_moment_correction) + 1 / 10 ^ 8)
                   in current_weight args - step)) g3
      in g4)"

text \<open>The array \<^verbatim>\<open>Weight *weights[]\<close> of the training branch.\<close>

definition weights_array :: "weight list" where
  "weights_array =
     [head1_filter, head1_bias, head2_filter, head2_bias,
      filter1, bias1, filter2, bias2, filter3, bias3,
      filter4, bias4, filter5, bias5, filter6, bias6]"

subsection \<open>\<^verbatim>\<open>generate()\<close>: the outputs\<close>

text \<open>
  \<^verbatim>\<open>prediction_output.bound(n, 0, batch_size)\<close> declares the range over which the
  output is evaluated: it holds a prediction for \<open>0 \<le> n < batch_size\<close> and nothing
  elsewhere. The check of the caller's output buffer against that range is made
  by the Halide runtime when the pipeline runs, not by the generator, and is not
  modelled; it passes when the buffer has the \<open>batch_size \<ge> 1\<close> elements of the
  batch. \<open>loss_output\<close> is the result of a division by \<^verbatim>\<open>batch_size\<close> in training
  mode, so it is a \<open>float_result\<close>. \<open>updated\<close> holds the sixteen \<^verbatim>\<open>updated_<name>\<close>
  buffers; \<^verbatim>\<open>ModelWeight<false>\<close> has no such output and its \<^verbatim>\<open>backprop\<close> is empty, so
  the field is \<open>None\<close> in inference mode. The static shapes given by \<^verbatim>\<open>set_shape\<close>
  (apart from the extent read by \<^verbatim>\<open>conv1_stage2\<close>) and the scheduling directives
  change no value and are left out.
\<close>

record outputs =
  prediction_output :: "int \<Rightarrow> real option"
  loss_output :: float_result
  updated :: "(weight \<Rightarrow> buffer) option"

definition bound :: "(int \<Rightarrow> real) \<Rightarrow> int \<Rightarrow> int \<Rightarrow> int \<Rightarrow> real option" where
  "bound f mn extent n = (if mn \<le> n \<and> n < mn + extent then Some (f n) else None)"

text \<open>
  The errors the specification names. \<^verbatim>\<open>generate()\<close> has no statement that raises
  or returns early, so the model never produces them.
\<close>

datatype error = InvalidConfiguration | ShapeMismatch

text \<open>
  \<open>training\<close> is the template parameter of \<^verbatim>\<open>CostModel\<close>. \<open>propagate_adjoints\<close> is
  Halide's reverse-mode differentiation (Derivative.h, not among the sources): it
  is a parameter, giving for the inputs of a call the adjoint buffer of every
  weight.
\<close>

definition generate :: "bool \<Rightarrow> (inputs \<Rightarrow> weight \<Rightarrow> buffer) \<Rightarrow> inputs \<Rightarrow> error + outputs" where
  "generate training propagate_adjoints inp =
     (if \<not> training then
        Inr \<lparr>prediction_output = bound (prediction inp) 0 (batch_size inp),
             loss_output = Finite 0, updated = None\<rparr>
      else
        (let d_loss_d = propagate_adjoints inp
         in Inr \<lparr>prediction_output = bound (prediction inp) 0 (batch_size inp),
                 loss_output = float_div (loss inp) (real_of_int (batch_size inp)),
                 updated = Some (foldl
                   (\<lambda>out w. out(w := backprop (weights inp w) (out w) (d_loss_d w)
                                         (learning_rate inp) (timestep inp)))
                   (grad inp) weights_array)\<rparr>))"

subsection \<open>A concrete call\<close>

text \<open>
  The end-to-end scenario of the specification: every filter is zero and every
  bias is the constant 1. All features are 1 or 0, all channel deviations are 0,
  so the floor of the divisor is in use.
\<close>

fun example_weights :: "weight \<Rightarrow> buffer" where
  "example_weights head1_filter = (\<lambda>args. 0)"
| "example_weights head2_filter = (\<lambda>args. 0)"
| "example_weights filter1 = (\<lambda>args. 0)"
| "example_weights filter2 = (\<lambda>args. 0)"
| "example_weights filter3 = (\<lambda>args. 0)"
| "example_weights filter4 = (\<lambda>args. 0)"
| "example_weights filter5 = (\<lambda>args. 0)"
| "example_weights filter6 = (\<lambda>args. 0)"
| "example_weights bias = (\<lambda>args. 1)"

definition example_inputs :: "int \<Rightarrow> int \<Rightarrow> inputs" where
  "example_inputs stages batch =
     \<lparr>num_stages = stages, batch_size = batch,
      pipeline_features = (\<lambda>args. 1), schedule_features = (\<lambda>args. 0),
      pipeline_mean = (\<lambda>args. 0), pipeline_std = (\<lambda>args. 0),
      schedule_mean = (\<lambda>args. 1), schedule_std = (\<lambda>args. 0),
      weights = example_weights, grad = (\<lambda>w args. 0),
      learning_rate = 1 / 100, timestep = 0, true_runtime = (\<lambda>args. 0)\<rparr>"

definition example_adjoints :: "inputs \<Rightarrow> weight \<Rightarrow> buffer" where
  "example_adjoints inp w = (\<lambda>args. 1)"


section \<open>Properties\<close>

subsection \<open>Reduction domains\<close>

lemma set_rdom: "set (rdom mn extent) = {mn..<mn + extent}"
  by (auto simp: rdom_def)

lemma distinct_rdom: "distinct (rdom mn extent)"
  by (simp add: rdom_def)

lemma accumulate_sum_list: "accumulate init e rs = init + sum_list (map e rs)"
  unfolding accumulate_def
  by (induction rs arbitrary: init) (simp_all add: add.assoc)

lemma accumulate_rdom: "accumulate init e (rdom mn extent) = init + (\<Sum>r = mn..<mn + extent. e r)"
  by (simp add: accumulate_sum_list sum_list_distinct_conv_sum_set distinct_rdom set_rdom)

lemma scatter_apply:
  "scatter pure_def e rs s = (if s \<in> set rs then e s else pure_def s)"
  unfolding scatter_def
  by (induction rs arbitrary: pure_def rule: rev_induct) simp_all

lemma scatter_rdom:
  "scatter pure_def e (rdom mn extent) s = (if mn \<le> s \<and> s < mn + extent then e s else pure_def s)"
  by (simp add: scatter_apply set_rdom)

lemma sum_list_map_concat:
  "sum_list (map f (concat xss)) = (\<Sum>xs\<leftarrow>xss. sum_list (map f xs))"
  by (induction xss) simp_all

lemma accumulate_rdom2:
  "accumulate init (\<lambda>(x, y). e x y) (rdom2 mn_x extent_x mn_y extent_y) =
     init + (\<Sum>x = mn_x..<mn_x + extent_x. \<Sum>y = mn_y..<mn_y + extent_y. e x y)"
proof -
  have "sum_list (map (\<lambda>(x, y). e x y) (rdom2 mn_x extent_x mn_y extent_y)) =
        (\<Sum>y = mn_y..<mn_y + extent_y. \<Sum>x = mn_x..<mn_x + extent_x. e x y)"
    by (simp add: rdom2_def sum_list_map_concat comp_def
        sum_list_distinct_conv_sum_set distinct_rdom set_rdom)
  also have "\<dots> = (\<Sum>x = mn_x..<mn_x + extent_x. \<Sum>y = mn_y..<mn_y + extent_y. e x y)"
    by (rule sum.swap)
  finally show ?thesis by (simp add: accumulate_sum_list)
qed

lemma pad_stages_eq:
  "pad_stages f stages w = (if 0 \<le> w \<and> w < stages then f w else 0)"
  by (auto simp: pad_stages_def)

subsection \<open>Feature normalization\<close>

lemma first_valid_eq:
  "first_valid inp = (padded_stages inp - num_stages inp) div 2"
  by (simp add: first_valid_def padded_stages_def)

lemma window_in_padded:
  "1 \<le> num_stages inp \<Longrightarrow>
   0 \<le> first_valid inp \<and> first_valid inp + num_stages inp \<le> padded_stages inp"
  unfolding first_valid_def padded_stages_def
  by (cases "num_stages inp \<le> 22") simp_all

lemma normalized_pipeline_features_eq:
  "normalized_pipeline_features inp c j s =
     (if first_valid inp \<le> s \<and> s < first_valid inp + num_stages inp
      then (pipeline_features inp [c, j, s - first_valid inp] - pipeline_mean inp [c, j])
            / max (1 / 10 ^ 8) (pipeline_std inp [c, j])
      else 0)"
  by (simp add: normalized_pipeline_features_def r_s_def scatter_rdom)

lemma normalized_schedule_features_eq:
  "normalized_schedule_features inp n c s =
     (if first_valid inp \<le> s \<and> s < first_valid inp + num_stages inp
      then (fast_log (schedule_features inp [n, c, s - first_valid inp] + 1) - schedule_mean inp [c])
            / max (1 / 10 ^ 8) (schedule_std inp [c])
      else 0)"
  by (simp add: normalized_schedule_features_def r_s_def scatter_rdom)

text \<open>
  C3. For \<open>num_stages \<ge> 1\<close>: \<open>padded_stages = max(num_stages, 22)\<close>,
  \<open>first_valid = (padded_stages - num_stages) div 2\<close>, the valid window
  \<open>[first_valid, first_valid + num_stages)\<close> lies inside \<open>[0, padded_stages)\<close>, and the
  normalized pipeline features are
  \<open>(raw[c, j, s - first_valid] - mean[c, j]) / max(std[c, j], 1e-8)\<close> at every stage \<open>s\<close>
  of the window and exactly 0 at every other stage. For 22 stages \<open>first_valid\<close> is
  0, for 10 stages it is 6, and for 30 stages \<open>padded_stages\<close> is 30 and
  \<open>first_valid\<close> is 0.
\<close>

theorem pipeline_normalizer_window:
  assumes "1 \<le> num_stages inp"
  shows "padded_stages inp = max (num_stages inp) 22
    \<and> first_valid inp = (padded_stages inp - num_stages inp) div 2
    \<and> 0 \<le> first_valid inp \<and> first_valid inp + num_stages inp \<le> padded_stages inp
    \<and> (\<forall>c j s. normalized_pipeline_features inp c j s =
         (if first_valid inp \<le> s \<and> s < first_valid inp + num_stages inp
          then (pipeline_features inp [c, j, s - first_valid inp] - pipeline_mean inp [c, j])
                / max (pipeline_std inp [c, j]) (1 / 10 ^ 8)
          else 0))
    \<and> (num_stages inp = 22 \<longrightarrow> first_valid inp = 0)
    \<and> (num_stages inp = 10 \<longrightarrow> first_valid inp = 6)
    \<and> (num_stages inp = 30 \<longrightarrow> padded_stages inp = 30 \<and> first_valid inp = 0)"
proof -
  have "padded_stages inp = max (num_stages inp) 22"
    by (simp add: padded_stages_def)
  moreover have "first_valid inp = (padded_stages inp - num_stages inp) div 2"
    by (rule first_valid_eq)
  moreover have "0 \<le> first_valid inp \<and> first_valid inp + num_stages inp \<le> padded_stages inp"
    using assms by (rule window_in_padded)
  moreover have "\<forall>c j s. normalized_pipeline_features inp c j s =
         (if first_valid inp \<le> s \<and> s < first_valid inp + num_stages inp
          then (pipeline_features inp [c, j, s - first_valid inp] - pipeline_mean inp [c, j])
                / max (pipeline_std inp [c, j]) (1 / 10 ^ 8)
          else 0)"
    by (simp add: normalized_pipeline_features_eq max.commute)
  moreover have "num_stages inp = 22 \<longrightarrow> first_valid inp = 0"
    by (simp add: first_valid_def padded_stages_def)
  moreover have "num_stages inp = 10 \<longrightarrow> first_valid inp = 6"
    by (simp add: first_valid_def padded_stages_def)
  moreover have "num_stages inp = 30 \<longrightarrow> padded_stages inp = 30 \<and> first_valid inp = 0"
    by (simp add: first_valid_def padded_stages_def)
  ultimately show ?thesis by blast
qed

text \<open>
  With 10 stages of raw value 1, mean 0 and deviation 0, the window is \<open>[6, 16)\<close>
  and holds \<open>1 / 1e-8\<close>; stages 5 and 16 are zero.
\<close>

theorem pipeline_normalizer_window_witness:
  "1 \<le> num_stages (example_inputs 10 1)
   \<and> padded_stages (example_inputs 10 1) = 22
   \<and> first_valid (example_inputs 10 1) = 6
   \<and> normalized_pipeline_features (example_inputs 10 1) 0 0 5 = 0
   \<and> normalized_pipeline_features (example_inputs 10 1) 0 0 6 = 10 ^ 8
   \<and> normalized_pipeline_features (example_inputs 10 1) 0 0 15 = 10 ^ 8
   \<and> normalized_pipeline_features (example_inputs 10 1) 0 0 16 = 0"
  using pipeline_normalizer_window [of "example_inputs 10 1"]
  by (simp add: example_inputs_def)

text \<open>
  C4. The schedule feature \<open>raw[n, c, s]\<close> of stage \<open>s\<close> of the pipeline
  (\<open>0 \<le> s < num_stages\<close>) lands at position \<open>first_valid + s\<close> of the window, where the
  normalized value is \<open>(log(raw[n, c, s] + 1) - mean[c]) / max(std[c], 1e-8)\<close>: the
  logarithm is applied to \<open>raw + 1\<close> first, then the channel mean is subtracted, then
  the difference is divided by the floored channel deviation.
\<close>

theorem schedule_normalizer_log:
  assumes "0 \<le> s" and "s < num_stages inp"
  shows "normalized_schedule_features inp n c (first_valid inp + s) =
     (ln (schedule_features inp [n, c, s] + 1) - schedule_mean inp [c])
       / max (schedule_std inp [c]) (1 / 10 ^ 8)"
  using assms
  by (simp add: normalized_schedule_features_eq fast_log_def max.commute)

text \<open>Raw value 0, mean 1, deviation 0: \<open>(log 1 - 1) / 1e-8\<close>.\<close>

theorem schedule_normalizer_log_witness:
  "(0::int) \<le> 0 \<and> 0 < num_stages (example_inputs 10 1)
   \<and> normalized_schedule_features (example_inputs 10 1) 0 0 (first_valid (example_inputs 10 1) + 0)
       = - (10 ^ 8)"
  using schedule_normalizer_log [of 0 "example_inputs 10 1" 0 0]
  by (simp add: example_inputs_def)

lemma example_fields:
  "pipeline_features (example_inputs stages batch) = (\<lambda>args. 1)"
  "schedule_features (example_inputs stages batch) = (\<lambda>args. 0)"
  "pipeline_mean (example_inputs stages batch) = (\<lambda>args. 0)"
  "pipeline_std (example_inputs stages batch) = (\<lambda>args. 0)"
  "schedule_mean (example_inputs stages batch) = (\<lambda>args. 1)"
  "schedule_std (example_inputs stages batch) = (\<lambda>args. 0)"
  "num_stages (example_inputs stages batch) = stages"
  "batch_size (example_inputs stages batch) = batch"
  by (simp_all add: example_inputs_def)








subsection \<open>The trunk\<close>

text \<open>
  C7. The pre-activation value of trunk layer 1 is \<open>bias1[c]\<close>, plus the sum over
  \<open>x < 24\<close>, \<open>k < 3\<close> of \<open>filter1[c, x, k] * pipelineHead[x, w + k - 1]\<close> (a term without
  the batch index), plus the sum over \<open>x < 24\<close>, \<open>k < 3\<close> of
  \<open>filter1[c, 24 + x, k] * scheduleHead[n, x, w + k - 1]\<close>: input channels \<open>[0, 24)\<close> of
  \<open>filter1\<close> meet the pipeline head, input channels \<open>[24, 48)\<close> the schedule head.
  It holds for every channel \<open>c\<close>, in particular for \<open>c < 48\<close>.
\<close>

theorem conv1_channel_split:
  "conv1_stage2 inp n c w =
     weights inp bias1 [c]
     + (\<Sum>x = 0..<24. \<Sum>k = 0..<3.
          weights inp filter1 [c, x, k] * head1_relu_padded inp x (w + k - 1))
     + (\<Sum>x = 0..<24. \<Sum>k = 0..<3.
          weights inp filter1 [c, 24 + x, k] * head2_relu_padded inp n x (w + k - 1))"
proof -
  have stage1: "conv1_stage1 inp c w =
     weights inp bias1 [c]
     + (\<Sum>x = 0..<24. \<Sum>k = 0..<3.
          weights inp filter1 [c, x, k] * head1_relu_padded inp x (w + k - 1))"
    by (simp add: conv1_stage1_def accumulate_rdom2 head1_channels_def conv_support_def)
  have "conv1_stage2 inp n c w =
     conv1_stage1 inp c w
     + (\<Sum>x = 0..<24. \<Sum>k = 0..<3.
          weights inp filter1 [c, 24 + x, k] * head2_relu_padded inp n x (w + k - 1))"
    by (simp add: conv1_stage2_def accumulate_rdom2 head1_filter_dim0_extent_def
        head1_channels_def head2_channels_def conv_support_def)
  with stage1 show ?thesis by simp
qed

lemma conv3_eq:
  "conv3 inp n c w = weights inp bias3 [c]
     + (\<Sum>x = 0..<48. \<Sum>k = 0..<3. weights inp filter3 [c, x, k] * relu2_padded inp n x (w + k - 1))"
  by (simp add: conv3_def accumulate_rdom2 conv2_channels_def conv_support_def)

lemma conv4_eq:
  "conv4 inp n c w = weights inp bias4 [c]
     + (\<Sum>x = 0..<96. \<Sum>k = 0..<3. weights inp filter4 [c, x, k] * pool3_padded inp n x (w + k - 1))"
  by (simp add: conv4_def accumulate_rdom2 conv3_channels_def conv_support_def)

lemma conv6_eq:
  "conv6 inp n w = weights inp bias6 []
     + (\<Sum>r = 0..<168. weights inp filter6 [r] * relu5_padded inp n r w)"
  by (simp add: conv6_def accumulate_rdom conv5_channels_def)

lemma example_padded_stages: "padded_stages (example_inputs stages batch) = max stages 22"
  by (simp add: padded_stages_def example_inputs_def)

lemma example_relu3: "relu3 (example_inputs stages batch) n c w = 100001 / 100000"
  by (simp add: relu3_def conv3_eq example_inputs_def activation_def)

lemma example_relu4: "relu4 (example_inputs stages batch) n c w = 100001 / 100000"
  by (simp add: relu4_def conv4_eq example_inputs_def activation_def)

lemma example_relu6: "relu6 (example_inputs stages batch) n w = 100001 / 100000"
  by (simp add: relu6_def conv6_eq example_inputs_def activation_def)

lemma pool3_support:
  "w < 0 \<or> padded_stages inp div 2 + 1 \<le> w \<Longrightarrow> pool3 inp n c w = 0"
  by (auto simp: pool3_def relu3_padded_def pad_stages_eq)

lemma pool4_support:
  "w < 0 \<or> (padded_stages inp + 6) div 4 \<le> w \<Longrightarrow> pool4 inp n c w = 0"
  by (auto simp: pool4_def relu4_padded_def pad_stages_eq)

text \<open>
  C5, as the specification states it, fails. With 22 stages \<open>padded_stages\<close> is 22
  and its half rounded up is 11, yet \<open>pool3_padded\<close> is not zero at position 11:
  there it is \<open>0.5 * (relu3[21] + 0)\<close>. Likewise half of 11 rounded up is 6, yet
  \<open>pool4_padded\<close> is not zero at position 6.
\<close>

theorem pooling_extent_not_rounded_up_half:
  "\<lceil>real_of_int (padded_stages (example_inputs 22 1)) / 2\<rceil> = 11
   \<and> pool3_padded (example_inputs 22 1) 0 0 11 = 100001 / 200000
   \<and> \<lceil>real_of_int \<lceil>real_of_int (padded_stages (example_inputs 22 1)) / 2\<rceil> / 2\<rceil> = 6
   \<and> pool4_padded (example_inputs 22 1) 0 0 6 = 100001 / 200000"
  by (simp add: pool3_padded_def pool4_padded_def pad_stages_eq pool3_def pool4_def
      relu3_padded_def relu4_padded_def example_relu3 example_relu4 example_padded_stages)

text \<open>
  C5, amended. Each pooling step computes \<open>0.5 * (in[n, c, 2w - 1] + in[n, c, 2w])\<close> on
  its zero-padded input. The window after the first pooling is
  \<open>[0, padded_stages div 2 + 1)\<close> and after the second
  \<open>[0, (padded_stages + 6) div 4)\<close>, which is the first extent halved the same way
  (\<open>e div 2 + 1\<close>); outside its window each padded pool is zero. Each window is the
  whole support of its pool, so the padding changes no value.
\<close>

theorem pooling_window_extents:
  "pool3_padded inp n c w =
     (if 0 \<le> w \<and> w < padded_stages inp div 2 + 1
      then (1 / 2) * (relu3_padded inp n c (2 * w - 1) + relu3_padded inp n c (2 * w)) else 0)
   \<and> pool4_padded inp n c w =
     (if 0 \<le> w \<and> w < (padded_stages inp + 6) div 4
      then (1 / 2) * (relu4_padded inp n c (2 * w - 1) + relu4_padded inp n c (2 * w)) else 0)
   \<and> (padded_stages inp + 6) div 4 = (padded_stages inp div 2 + 1) div 2 + 1
   \<and> pool3_padded inp n c w = pool3 inp n c w
   \<and> pool4_padded inp n c w = pool4 inp n c w"
proof -
  have first: "pool3_padded inp n c w =
     (if 0 \<le> w \<and> w < padded_stages inp div 2 + 1
      then (1 / 2) * (relu3_padded inp n c (2 * w - 1) + relu3_padded inp n c (2 * w)) else 0)"
    by (simp add: pool3_padded_def pad_stages_eq pool3_def mult.commute)
  have second: "pool4_padded inp n c w =
     (if 0 \<le> w \<and> w < (padded_stages inp + 6) div 4
      then (1 / 2) * (relu4_padded inp n c (2 * w - 1) + relu4_padded inp n c (2 * w)) else 0)"
    by (simp add: pool4_padded_def pad_stages_eq pool4_def mult.commute)
  have extent: "(padded_stages inp + 6) div 4 = (padded_stages inp div 2 + 1) div 2 + 1"
    by presburger
  have same3: "pool3_padded inp n c w = pool3 inp n c w"
    using pool3_support [of w inp n c] by (auto simp: pool3_padded_def pad_stages_eq)
  have same4: "pool4_padded inp n c w = pool4 inp n c w"
    using pool4_support [of w inp n c] by (auto simp: pool4_padded_def pad_stages_eq)
  from first second extent same3 same4 show ?thesis by blast
qed

subsection \<open>Prediction\<close>

text \<open>
  C6. The prediction of batch element \<open>n\<close> is the plain sum of \<open>relu6[n, w]\<close> over the
  stage positions \<open>0 \<le> w < (padded_stages + 6) div 4\<close>; nothing divides it by the
  number of stages.
\<close>

theorem prediction_is_raw_sum:
  "prediction inp n = (\<Sum>w = 0..<(padded_stages inp + 6) div 4. relu6 inp n w)"
  by (simp add: prediction_def r_reduce_def accumulate_rdom)

lemma example_prediction:
  "prediction (example_inputs stages batch) n =
     real_of_int ((max stages 22 + 6) div 4) * (100001 / 100000)"
  by (simp add: prediction_def r_reduce_def accumulate_rdom example_relu6 example_padded_stages)

subsection \<open>The two modes of \<^verbatim>\<open>generate()\<close>\<close>

lemma foldl_fun_upd:
  "distinct ws \<Longrightarrow>
   foldl (\<lambda>out w. out(w := F w (out w))) g ws w = (if w \<in> set ws then F w (g w) else g w)"
  by (induction ws arbitrary: g) auto

lemma distinct_weights_array: "distinct weights_array"
  by (simp add: weights_array_def)

lemma set_weights_array: "w \<in> set weights_array"
  by (cases w) (simp_all add: weights_array_def)

lemma backprop_all_weights:
  "foldl (\<lambda>out w. out(w := backprop (this w) (out w) (d w) lr t)) g weights_array =
     (\<lambda>w. backprop (this w) (g w) (d w) lr t)"
proof
  fix w
  show "foldl (\<lambda>out w. out(w := backprop (this w) (out w) (d w) lr t)) g weights_array w =
          backprop (this w) (g w) (d w) lr t"
    using foldl_fun_upd [of weights_array "\<lambda>w b. backprop (this w) b (d w) lr t" g w]
    by (simp add: distinct_weights_array set_weights_array)
qed

lemma generate_training:
  "generate True pa inp =
     Inr \<lparr>prediction_output = bound (prediction inp) 0 (batch_size inp),
          loss_output = float_div (loss inp) (real_of_int (batch_size inp)),
          updated = Some (\<lambda>w. backprop (weights inp w) (grad inp w) (pa inp w)
                                  (learning_rate inp) (timestep inp))\<rparr>"
  by (simp add: generate_def backprop_all_weights)

lemma generate_inference:
  "generate False pa inp =
     Inr \<lparr>prediction_output = bound (prediction inp) 0 (batch_size inp),
          loss_output = Finite 0, updated = None\<rparr>"
  by (simp add: generate_def)

text \<open>
  C10. In inference mode the loss output is defined and is the constant 0,
  whatever the inputs (the true runtimes included): the mean squared error is
  computed in the training branch only.
\<close>

theorem inference_loss_zero:
  "\<exists>out. generate False propagate_adjoints inp = Inr out \<and> loss_output out = Finite 0"
  by (simp add: generate_inference)

text \<open>
  C2. In training mode with batch size \<open>B \<ge> 1\<close> the loss output is
  \<open>(1 / B) * (\<Sum>n < B. (prediction[n] - true_runtime[n])\<^sup>2)\<close>.
\<close>

theorem loss_is_batch_mean:
  assumes "1 \<le> batch_size inp"
  shows "\<exists>out. generate True propagate_adjoints inp = Inr out \<and>
     loss_output out =
       Finite ((1 / real_of_int (batch_size inp))
               * (\<Sum>n = 0..<batch_size inp. (prediction inp n - true_runtime inp [n])\<^sup>2))"
proof -
  have "loss inp = (\<Sum>n = 0..<batch_size inp. (prediction inp n - true_runtime inp [n])\<^sup>2)"
    by (simp add: loss_def r_batch_def accumulate_rdom err_def Let_def power2_eq_square)
  with assms show ?thesis
    by (simp add: generate_training float_div_def)
qed

text \<open>
  A batch of two, 22 stages: both predictions are \<open>7 * 1.00001\<close>, both true
  runtimes are 0.
\<close>

theorem loss_is_batch_mean_witness:
  "1 \<le> batch_size (example_inputs 22 2)
   \<and> (\<exists>out. generate True example_adjoints (example_inputs 22 2) = Inr out
         \<and> loss_output out = Finite ((700007 / 100000)\<^sup>2))"
  using loss_is_batch_mean [of "example_inputs 22 2" example_adjoints]
  by (simp add: example_prediction) (simp add: example_inputs_def)

subsection \<open>The ADAM update\<close>

lemma backprop_loss_gradient:
  "backprop this g0 d lr t (args @ [3]) = d args"
  by (simp add: backprop_def Let_def update_plane_def plane_def)

lemma backprop_smoothed_deriv:
  "backprop this g0 d lr t (args @ [1]) = (9 / 10) * g0 (args @ [1]) + (1 / 10) * d args"
  by (simp add: backprop_def Let_def update_plane_def plane_def)

lemma backprop_smoothed_second_moment:
  "backprop this g0 d lr t (args @ [2]) =
     (999 / 1000) * g0 (args @ [2]) + (1 / 1000) * (d args)\<^sup>2"
  by (simp add: backprop_def Let_def update_plane_def plane_def pow_def)

lemma backprop_new_weight:
  "backprop this g0 d lr t (args @ [0]) =
     this args
     - lr * ((9 / 10) * g0 (args @ [1]) + (1 / 10) * d args) * (1 / (1 - pow (9 / 10) (t + 1)))
       / (sqrt (((999 / 1000) * g0 (args @ [2]) + (1 / 1000) * (d args)\<^sup>2)
                * (1 / (1 - pow (999 / 1000) (t + 1)))) + 1 / 10 ^ 8)"
  by (simp add: backprop_def Let_def update_plane_def plane_def pow_def)

lemma pow_nonneg: "0 \<le> t \<Longrightarrow> pow x (t + 1) = x ^ (nat t + 1)"
  by (simp add: pow_def power_int_def nat_add_distrib)

text \<open>
  C1. Take any weight \<open>w\<close> and any entry \<open>args\<close> of it, with value \<open>\<theta>\<close>, loss gradient
  \<open>g\<close>, and previous moments \<open>m_prev\<close> and \<open>v_prev\<close> as the caller left them in planes
  1 and 2 of the weight's output buffer (zeros before the first step, by the
  caller's convention). With the timestep \<open>t \<ge> 0\<close> of the call, the same for every
  weight, one training call returns in planes 0 to 3 of that entry
  \<open>\<theta> - lr * (m / (1 - 0.9^(t+1))) / (sqrt (v / (1 - 0.999^(t+1))) + 1e-8)\<close>,
  \<open>m = 0.9 * m_prev + 0.1 * g\<close>, \<open>v = 0.999 * v_prev + 0.001 * g\<^sup>2\<close> and \<open>g\<close>. The timestep
  is only read: it is an input, and no output carries it. For \<open>t \<ge> 0\<close> both
  bias corrections divide by a positive number.
\<close>

theorem adam_update:
  assumes "0 \<le> timestep inp"
  shows "\<exists>out upd. generate True propagate_adjoints inp = Inr out \<and> updated out = Some upd \<and>
    (let \<theta> = weights inp w args;
         g = propagate_adjoints inp w args;
         m_prev = grad inp w (args @ [1]);
         v_prev = grad inp w (args @ [2]);
         lr = learning_rate inp;
         t = nat (timestep inp);
         m = (9 / 10) * m_prev + (1 / 10) * g;
         v = (999 / 1000) * v_prev + (1 / 1000) * g\<^sup>2
     in upd w (args @ [0]) =
          \<theta> - lr * (m / (1 - (9 / 10) ^ (t + 1)))
                / (sqrt (v / (1 - (999 / 1000) ^ (t + 1))) + 1 / 10 ^ 8)
        \<and> upd w (args @ [1]) = m
        \<and> upd w (args @ [2]) = v
        \<and> upd w (args @ [3]) = g)"
  using assms
  by (simp add: generate_training Let_def backprop_loss_gradient backprop_smoothed_deriv
      backprop_smoothed_second_moment backprop_new_weight pow_nonneg)

text \<open>
  The first step of the specification's ADAM test: \<open>t = 0\<close>, zero moments, \<open>g = 1\<close>,
  \<open>lr = 0.01\<close>, \<open>\<theta> = 1\<close>, so \<open>m = 0.1\<close>, \<open>v = 0.001\<close> and
  \<open>\<theta>_new = 1 - 0.01 / (1 + 1e-8)\<close>.
\<close>

theorem adam_update_witness:
  "0 \<le> timestep (example_inputs 22 1)
   \<and> (\<exists>out upd. generate True example_adjoints (example_inputs 22 1) = Inr out
         \<and> updated out = Some upd
         \<and> upd bias1 [0, 0] = 99000001 / 100000001
         \<and> upd bias1 [0, 1] = 1 / 10
         \<and> upd bias1 [0, 2] = 1 / 1000
         \<and> upd bias1 [0, 3] = 1)"
  using adam_update [of "example_inputs 22 1" example_adjoints bias1 "[0]"]
  by (simp add: example_inputs_def example_adjoints_def Let_def)

subsection \<open>Non-positive sizes\<close>

text \<open>
  C9, as the specification states it, fails. A call with \<open>num_stages = 0\<close> and
  \<open>batch_size = 1\<close> is not rejected in either mode: it returns outputs, and the
  prediction of batch element 0 is \<open>7 * 1.00001\<close>.
\<close>

theorem nonpositive_stages_not_rejected:
  "num_stages (example_inputs 0 1) \<le> 0
   \<and> generate False example_adjoints (example_inputs 0 1) =
       Inr \<lparr>prediction_output = bound (prediction (example_inputs 0 1)) 0 1,
            loss_output = Finite 0, updated = None\<rparr>
   \<and> generate False example_adjoints (example_inputs 0 1) \<noteq> Inl InvalidConfiguration
   \<and> bound (prediction (example_inputs 0 1)) 0 1 0 = Some (700007 / 100000)
   \<and> generate True example_adjoints (example_inputs 0 1) \<noteq> Inl InvalidConfiguration
   \<and> \<not> isl (generate True example_adjoints (example_inputs 0 1))
   \<and> prediction_output (projr (generate True example_adjoints (example_inputs 0 1))) 0
       = Some (700007 / 100000)"
  by (simp add: generate_inference generate_training example_prediction bound_def)
     (simp add: example_inputs_def)

text \<open>
  C9, amended. The generator does not validate \<open>num_stages\<close> and has no
  \<open>InvalidConfiguration\<close> failure: a call with \<open>num_stages \<le> 0\<close> and a batch of at
  least one element is not rejected in either mode. The reduction domain \<open>r_s\<close> is
  empty, so \<open>padded_stages\<close> is 22 and both normalized feature tensors are zero
  everywhere; the call returns the prediction of every batch element
  \<open>0 \<le> n < batch_size\<close> and, in training mode, the ADAM update of every weight.
  Nothing is stated about a call with \<open>batch_size \<le> 0\<close>.
\<close>

theorem nonpositive_stages_accepted:
  assumes "num_stages inp \<le> 0" and "1 \<le> batch_size inp"
  shows "generate training propagate_adjoints inp \<noteq> Inl InvalidConfiguration
    \<and> padded_stages inp = 22
    \<and> (\<forall>c j s. normalized_pipeline_features inp c j s = 0)
    \<and> (\<forall>n c s. normalized_schedule_features inp n c s = 0)
    \<and> (\<exists>out. generate training propagate_adjoints inp = Inr out
          \<and> (\<forall>n. 0 \<le> n \<and> n < batch_size inp \<longrightarrow> prediction_output out n = Some (prediction inp n))
          \<and> (training \<longrightarrow>
                updated out =
                  Some (\<lambda>w. backprop (weights inp w) (grad inp w) (propagate_adjoints inp w)
                                (learning_rate inp) (timestep inp))))"
proof -
  have stages: "padded_stages inp = 22"
    using assms(1) by (simp add: padded_stages_def)
  have pipeline: "\<forall>c j s. normalized_pipeline_features inp c j s = 0"
    using assms(1) by (simp add: normalized_pipeline_features_eq)
  have schedule: "\<forall>n c s. normalized_schedule_features inp n c s = 0"
    using assms(1) by (simp add: normalized_schedule_features_eq)
  have outputs: "generate training propagate_adjoints inp \<noteq> Inl InvalidConfiguration
    \<and> (\<exists>out. generate training propagate_adjoints inp = Inr out
          \<and> (\<forall>n. 0 \<le> n \<and> n < batch_size inp \<longrightarrow> prediction_output out n = Some (prediction inp n))
          \<and> (training \<longrightarrow>
                updated out =
                  Some (\<lambda>w. backprop (weights inp w) (grad inp w) (propagate_adjoints inp w)
                                (learning_rate inp) (timestep inp))))"
  proof (cases training)
    case True
    then show ?thesis by (simp add: generate_training bound_def)
  next
    case False
    then show ?thesis by (simp add: generate_inference bound_def)
  qed
  from stages pipeline schedule outputs show ?thesis by blast
qed

text \<open>Zero stages and a batch of one, in inference mode and in training mode.\<close>

theorem nonpositive_stages_accepted_witness:
  "num_stages (example_inputs 0 1) \<le> 0 \<and> 1 \<le> batch_size (example_inputs 0 1)
   \<and> padded_stages (example_inputs 0 1) = 22
   \<and> normalized_pipeline_features (example_inputs 0 1) 0 0 11 = 0
   \<and> (\<exists>out. generate False example_adjoints (example_inputs 0 1) = Inr out
         \<and> prediction_output out 0 = Some (700007 / 100000))
   \<and> (\<exists>out upd. generate True example_adjoints (example_inputs 0 1) = Inr out
         \<and> prediction_output out 0 = Some (700007 / 100000)
         \<and> updated out = Some upd)"
  using nonpositive_stages_accepted [of "example_inputs 0 1" False example_adjoints]
        nonpositive_stages_accepted [of "example_inputs 0 1" True example_adjoints]
  by (auto simp: example_fields example_prediction)

end
